theory Spec2Isabelle
  imports Main
begin

section \<open>Syntax trees\<close>

text \<open>
  The utilities of \<^verbatim>\<open>packages/core/src\<close> query the syntax tree an external parser
  hands to jscodeshift. A node is a tagged object; the constructor is the value of its
  \<^verbatim>\<open>type\<close> property and the arguments are the fields the utilities can reach.
  Fields that no utility reads (\<^verbatim>\<open>computed\<close>, \<^verbatim>\<open>static\<close>, \<^verbatim>\<open>kind\<close>, source positions)
  are left out. A field that may be \<^verbatim>\<open>null\<close> is an option.
\<close>

datatype literal_value =
    StringValue string
  | NumberValue int
  | BooleanValue bool
  | NullValue

datatype node =
    Program "node list"
  | ImportDeclaration "node list" node
  | ImportSpecifier node node
  | ImportDefaultSpecifier node
  | ImportNamespaceSpecifier node
  | ExportDefaultDeclaration node
  | ClassDeclaration "node option" "node option" node
  | ClassExpression "node option" "node option" node
  | ClassBody "node list"
  | MethodDefinition node node
  | ClassProperty node "node option"
  | FunctionExpression "node list" node
  | BlockStatement "node list"
  | ExpressionStatement node
  | ReturnStatement "node option"
  | Identifier string
  | Literal literal_value
  | StringLiteral string
  | ThisExpression
  | MemberExpression node node
  | CallExpression node "node list"
  | AssignmentExpression node node
  | ObjectExpression "node list"
  | Property node node
  | JSXElement string "node list"
  | JSXExpressionContainer node
  | JSXText string

text \<open>
  Field order: \<^verbatim>\<open>ImportDeclaration specifiers source\<close>, \<^verbatim>\<open>ImportSpecifier imported local\<close>,
  \<^verbatim>\<open>ClassDeclaration id superClass body\<close>, \<^verbatim>\<open>MethodDefinition key value\<close>,
  \<^verbatim>\<open>ClassProperty key value\<close>, \<^verbatim>\<open>FunctionExpression params body\<close>,
  \<^verbatim>\<open>MemberExpression object property\<close>, \<^verbatim>\<open>CallExpression callee arguments\<close>,
  \<^verbatim>\<open>AssignmentExpression left right\<close>, \<^verbatim>\<open>Property key value\<close>,
  \<^verbatim>\<open>JSXElement name children\<close>. \<^verbatim>\<open>StringLiteral\<close> is the node kind a parser
  without ESTree output gives a string; its \<^verbatim>\<open>type\<close> is not \<^verbatim>\<open>"Literal"\<close>.
\<close>

fun opt_list :: "'a option \<Rightarrow> 'a list" where
  "opt_list None = []"
| "opt_list (Some x) = [x]"

fun children :: "node \<Rightarrow> node list" where
  "children (Program body) = body"
| "children (ImportDeclaration specifiers source) = specifiers @ [source]"
| "children (ImportSpecifier imported local) = [imported, local]"
| "children (ImportDefaultSpecifier local) = [local]"
| "children (ImportNamespaceSpecifier local) = [local]"
| "children (ExportDefaultDeclaration declaration) = [declaration]"
| "children (ClassDeclaration ident superClass body) = opt_list ident @ [body] @ opt_list superClass"
| "children (ClassExpression ident superClass body) = opt_list ident @ [body] @ opt_list superClass"
| "children (ClassBody body) = body"
| "children (MethodDefinition key val) = [key, val]"
| "children (ClassProperty key val) = key # opt_list val"
| "children (FunctionExpression params body) = params @ [body]"
| "children (BlockStatement body) = body"
| "children (ExpressionStatement expression) = [expression]"
| "children (ReturnStatement argument) = opt_list argument"
| "children (Identifier name) = []"
| "children (Literal v) = []"
| "children (StringLiteral s) = []"
| "children ThisExpression = []"
| "children (MemberExpression object property) = [object, property]"
| "children (CallExpression callee arguments) = callee # arguments"
| "children (AssignmentExpression left right) = [left, right]"
| "children (ObjectExpression properties) = properties"
| "children (Property key val) = [key, val]"
| "children (JSXElement name cs) = cs"
| "children (JSXExpressionContainer expression) = [expression]"
| "children (JSXText s) = []"

lemma size_opt_list: "c \<in> set (opt_list x) \<Longrightarrow> size c < Suc (size_option size x)"
  by (cases x) auto

lemma size_in_list: "c \<in> set xs \<Longrightarrow> size c \<le> size_list size xs"
  by (simp add: size_list_estimation')

lemma size_children: "c \<in> set (children n) \<Longrightarrow> size c < size n"
  by (cases n) (auto simp: less_Suc_eq_le dest!: size_opt_list dest: size_in_list trans_le_add1)

text \<open>
  The proper descendants of a node, in the order a depth-first traversal meets them.
  \<^const>\<open>children\<close> lists the fields in the order the traversal of ast-types visits
  them; for a class that is \<^verbatim>\<open>id\<close>, \<^verbatim>\<open>body\<close>, \<^verbatim>\<open>superClass\<close>.
\<close>

function descendants :: "node \<Rightarrow> node list" where
  "descendants n = concat (map (\<lambda>c. c # descendants c) (children n))"
  by pat_completeness auto
termination
  by (relation "measure size") (auto simp: size_children)

declare descendants.simps [simp del]

text \<open>The nodes at and below each node of a list, in the same order.\<close>

definition subtrees :: "node list \<Rightarrow> node list" where
  "subtrees ns = concat (map (\<lambda>c. c # descendants c) ns)"

lemma subtrees_Nil [simp]: "subtrees [] = []"
  by (simp add: subtrees_def)

lemma subtrees_Cons [simp]: "subtrees (c # cs) = c # descendants c @ subtrees cs"
  by (simp add: subtrees_def)

lemma subtrees_append [simp]: "subtrees (xs @ ys) = subtrees xs @ subtrees ys"
  by (simp add: subtrees_def)

lemma descendants_children: "descendants n = subtrees (children n)"
  unfolding subtrees_def by (rule descendants.simps)

section \<open>The tree query facility\<close>

text \<open>
  A jscodeshift \<^verbatim>\<open>Collection\<close> is a list of paths; a path is modelled by the node it
  points at. The methods the utilities call:
  \<^item> \<^verbatim>\<open>find(Type, shape)\<close> visits the proper descendants of every path of the collection
    and keeps, in traversal order, those of node type \<^verbatim>\<open>Type\<close> that match the shape
    (a root is never its own match);
  \<^item> \<^verbatim>\<open>filter(p)\<close> is \<^const>\<open>filter\<close>, \<^verbatim>\<open>size()\<close> is \<^const>\<open>length\<close>,
    \<^verbatim>\<open>at(0)\<close> keeps the first path only (\<^term>\<open>take 1\<close>) and \<^verbatim>\<open>paths()\<close> is the list
    itself.
  A shape is matched field by field, so it is a predicate on nodes here; the node type
  is part of each predicate.
\<close>

definition collection_find :: "(node \<Rightarrow> bool) \<Rightarrow> node list \<Rightarrow> node list" where
  "collection_find shape paths = concat (map (\<lambda>p. filter shape (descendants p)) paths)"

text \<open>
  Property reads; \<^verbatim>\<open>undefined\<close> is \<^const>\<open>None\<close>. Of the node kinds above only an
  \<^verbatim>\<open>Identifier\<close> carries a \<^verbatim>\<open>name\<close> string (the tag name of a \<^verbatim>\<open>JSXElement\<close> sits in
  its opening element, not on the node).
\<close>

definition name_of :: "node \<Rightarrow> string option" where
  "name_of n = (case n of Identifier name \<Rightarrow> Some name | _ \<Rightarrow> None)"

definition value_of :: "node \<Rightarrow> literal_value option" where
  "value_of n =
     (case n of Literal v \<Rightarrow> Some v | StringLiteral s \<Rightarrow> Some (StringValue s) | _ \<Rightarrow> None)"

definition source_of :: "node \<Rightarrow> node option" where
  "source_of n = (case n of ImportDeclaration specifiers source \<Rightarrow> Some source | _ \<Rightarrow> None)"

definition key_of :: "node \<Rightarrow> node option" where
  "key_of n =
     (case n of
        MethodDefinition key val \<Rightarrow> Some key
      | ClassProperty key val \<Rightarrow> Some key
      | Property key val \<Rightarrow> Some key
      | _ \<Rightarrow> None)"

definition local_of :: "node \<Rightarrow> node option" where
  "local_of n =
     (case n of
        ImportSpecifier imported local \<Rightarrow> Some local
      | ImportDefaultSpecifier local \<Rightarrow> Some local
      | ImportNamespaceSpecifier local \<Rightarrow> Some local
      | _ \<Rightarrow> None)"

definition id_of :: "node \<Rightarrow> node option" where
  "id_of n =
     (case n of
        ClassDeclaration ident superClass body \<Rightarrow> ident
      | ClassExpression ident superClass body \<Rightarrow> ident
      | _ \<Rightarrow> None)"

definition superClass_of :: "node \<Rightarrow> node option" where
  "superClass_of n =
     (case n of
        ClassDeclaration ident superClass body \<Rightarrow> superClass
      | ClassExpression ident superClass body \<Rightarrow> superClass
      | _ \<Rightarrow> None)"

text \<open>Node types, as \<^verbatim>\<open>find\<close> tests them.\<close>

definition isImportDeclaration :: "node \<Rightarrow> bool" where
  "isImportDeclaration n = (case n of ImportDeclaration specifiers source \<Rightarrow> True | _ \<Rightarrow> False)"

definition isImportSpecifier :: "node \<Rightarrow> bool" where
  "isImportSpecifier n = (case n of ImportSpecifier imported local \<Rightarrow> True | _ \<Rightarrow> False)"

definition isClassDeclaration :: "node \<Rightarrow> bool" where
  "isClassDeclaration n = (case n of ClassDeclaration ident superClass body \<Rightarrow> True | _ \<Rightarrow> False)"

definition isMethodDefinition :: "node \<Rightarrow> bool" where
  "isMethodDefinition n = (case n of MethodDefinition key val \<Rightarrow> True | _ \<Rightarrow> False)"

definition isJSXElement :: "node \<Rightarrow> bool" where
  "isJSXElement n = (case n of JSXElement name cs \<Rightarrow> True | _ \<Rightarrow> False)"

definition isLiteral :: "node \<Rightarrow> bool" where
  "isLiteral n = (case n of Literal v \<Rightarrow> True | _ \<Rightarrow> False)"

section \<open>The utilities\<close>

text \<open>
  The shape \<^verbatim>\<open>{ type: "ImportDeclaration", source: { type: "Literal" } }\<close> that
  \<^verbatim>\<open>findModule\<close> and \<^verbatim>\<open>findReactComponentNameByParent\<close> search for.
\<close>

definition literalImportShape :: "node \<Rightarrow> bool" where
  "literalImportShape n =
     (isImportDeclaration n \<and> (case source_of n of None \<Rightarrow> False | Some s \<Rightarrow> isLiteral s))"

text \<open>
  \<^verbatim>\<open>declarator.value.source.value === module\<close>: strict equality with a string holds for
  a string value only.
\<close>

definition sourceValueIs :: "string \<Rightarrow> node \<Rightarrow> bool" where
  "sourceValueIs module declarator =
     (case source_of declarator of
        None \<Rightarrow> False
      | Some s \<Rightarrow> value_of s = Some (StringValue module))"

definition findModule :: "node list \<Rightarrow> string \<Rightarrow> node list" where
  "findModule path module = filter (sourceValueIs module) (collection_find literalImportShape path)"

definition hasModule :: "node list \<Rightarrow> string \<Rightarrow> bool" where
  "hasModule path module = (length (findModule path module) = 1)"

definition hasReact :: "node list \<Rightarrow> bool" where
  "hasReact path =
     (hasModule path ''React'' \<or> hasModule path ''react'' \<or> hasModule path ''react-native'')"

definition isRenderMethod :: "node \<Rightarrow> bool" where
  "isRenderMethod n =
     (isMethodDefinition n \<and>
      (case key_of n of
         Some (Identifier name) \<Rightarrow> name = ''render''
       | _ \<Rightarrow> False))"

definition hasOnlyRenderMethod :: "node \<Rightarrow> bool" where
  "hasOnlyRenderMethod path =
     (length (filter (\<lambda>p. \<not> isRenderMethod p) (collection_find isMethodDefinition [path])) = 0)"

text \<open>
  The shape \<^verbatim>\<open>{ type: "ImportSpecifier", imported: { type: "Identifier", name: parentClassName } }\<close>.
\<close>

definition importSpecifierShape :: "string \<Rightarrow> node \<Rightarrow> bool" where
  "importSpecifierShape parentClassName n =
     (case n of
        ImportSpecifier imported local \<Rightarrow>
          (case imported of Identifier name \<Rightarrow> name = parentClassName | _ \<Rightarrow> False)
      | _ \<Rightarrow> False)"

text \<open>
  \<^verbatim>\<open>paths[0].value.local.name\<close> of an import specifier. A specifier always has a
  \<^verbatim>\<open>local\<close> node; the name is \<^verbatim>\<open>undefined\<close> when that node is no identifier.
\<close>

definition localName :: "node \<Rightarrow> string option" where
  "localName spec = (case local_of spec of None \<Rightarrow> None | Some l \<Rightarrow> name_of l)"

definition findReactComponentNameByParent :: "node list \<Rightarrow> string \<Rightarrow> string option" where
  "findReactComponentNameByParent path parentClassName =
     (let reactImportDeclaration =
            filter (\<lambda>_. hasReact path) (collection_find literalImportShape path);
          componentImportSpecifier =
            take 1 (collection_find (importSpecifierShape parentClassName) reactImportDeclaration);
          paths = componentImportSpecifier
      in case paths of [] \<Rightarrow> None | p # _ \<Rightarrow> localName p)"

text \<open>
  The two selectors of \<^verbatim>\<open>findReactES6ClassDeclarationByParent\<close>. The second one is
  written with the constant \<^verbatim>\<open>"Component"\<close> in the source, whatever the parent name.
\<close>

definition identifierSelector :: "string \<Rightarrow> node \<Rightarrow> bool" where
  "identifierSelector componentImport n =
     (isClassDeclaration n \<and>
      (case superClass_of n of
         Some (Identifier name) \<Rightarrow> name = componentImport
       | _ \<Rightarrow> False))"

definition memberSelector :: "node \<Rightarrow> bool" where
  "memberSelector n =
     (isClassDeclaration n \<and>
      (case superClass_of n of
         Some (MemberExpression object property) \<Rightarrow>
           (case object of Identifier name \<Rightarrow> name = ''React'' | _ \<Rightarrow> False) \<and>
           (case property of Identifier name \<Rightarrow> name = ''Component'' | _ \<Rightarrow> False)
       | _ \<Rightarrow> False))"

text \<open>
  \<^verbatim>\<open>componentImport ? ... : ...\<close>: \<^verbatim>\<open>undefined\<close> and the empty string are falsy.
\<close>

fun truthy :: "string option \<Rightarrow> bool" where
  "truthy None = False"
| "truthy (Some s) = (s \<noteq> [])"

definition findReactES6ClassDeclarationByParent :: "node list \<Rightarrow> string \<Rightarrow> node list" where
  "findReactES6ClassDeclarationByParent path parentClassName =
     (let componentImport = findReactComponentNameByParent path parentClassName;
          selector = (if truthy componentImport
                      then identifierSelector (case componentImport of Some s \<Rightarrow> s | None \<Rightarrow> [])
                      else memberSelector)
      in collection_find selector path)"

definition findReactES6ClassDeclaration :: "node list \<Rightarrow> node list" where
  "findReactES6ClassDeclaration path =
     (let classDeclarations = findReactES6ClassDeclarationByParent path ''Component''
      in if length classDeclarations = 0
         then findReactES6ClassDeclarationByParent path ''PureComponent''
         else classDeclarations)"

definition hasReactES6Class :: "node list \<Rightarrow> bool" where
  "hasReactES6Class path = (length (findReactES6ClassDeclaration path) > 0)"

definition findJSX :: "node list \<Rightarrow> node list" where
  "findJSX path = collection_find isJSXElement path"

definition hasJSX :: "node list \<Rightarrow> bool" where
  "hasJSX path = (length (findJSX path) > 0)"

text \<open>\<^verbatim>\<open>element.value.key["name"] === methodName\<close>, the test of both lifecycle finders.\<close>

definition keyNameIs :: "string \<Rightarrow> node \<Rightarrow> bool" where
  "keyNameIs methodName element =
     (case key_of element of None \<Rightarrow> False | Some k \<Rightarrow> name_of k = Some methodName)"

definition findComponentDidCatchMethod :: "node list \<Rightarrow> node list" where
  "findComponentDidCatchMethod path =
     filter (keyNameIs ''componentDidCatch'') (collection_find isMethodDefinition path)"

definition hasComponentDidCatchMethod :: "node list \<Rightarrow> bool" where
  "hasComponentDidCatchMethod path = (length (findComponentDidCatchMethod path) > 0)"

definition findGetDerivedStateFromErrorMethod :: "node list \<Rightarrow> node list" where
  "findGetDerivedStateFromErrorMethod path =
     filter (keyNameIs ''getDerivedStateFromError'') (collection_find isMethodDefinition path)"

definition hasGetDerivedStateFromErrorMethod :: "node list \<Rightarrow> bool" where
  "hasGetDerivedStateFromErrorMethod path = (length (findGetDerivedStateFromErrorMethod path) > 0)"

text \<open>
  \<^verbatim>\<open>getClassName\<close> reads \<^verbatim>\<open>path.node.id.name\<close>. Reading \<^verbatim>\<open>name\<close> of a \<^verbatim>\<open>null\<close> id
  throws a \<^verbatim>\<open>TypeError\<close>; reading it of a node that has none gives \<^verbatim>\<open>undefined\<close>.
\<close>

datatype js_error = TypeError

definition getClassName :: "node \<Rightarrow> js_error + string option" where
  "getClassName path = (case id_of path of None \<Rightarrow> Inl TypeError | Some i \<Rightarrow> Inr (name_of i))"

section \<open>What the specification speaks of\<close>

text \<open>
  The claims are stated over the nodes below the roots of a collection, the modules the
  import declarations name, the closed set of framework module spellings, and class
  declarations whose superclass is a given expression. These notions are defined here
  on their own, not through the utilities.
\<close>

definition tree_nodes :: "node list \<Rightarrow> node list" where
  "tree_nodes paths = concat (map descendants paths)"

definition import_source :: "node \<Rightarrow> string option" where
  "import_source n =
     (case n of
        ImportDeclaration specifiers source \<Rightarrow>
          (case source of
             Literal v \<Rightarrow> (case v of StringValue s \<Rightarrow> Some s | _ \<Rightarrow> None)
           | _ \<Rightarrow> None)
      | _ \<Rightarrow> None)"

definition imported_modules :: "node list \<Rightarrow> string list" where
  "imported_modules paths = List.map_filter import_source (tree_nodes paths)"

definition moduleNames :: "string list" where
  "moduleNames = [''React'', ''react'', ''react-native'']"

definition extendsMember :: "string \<Rightarrow> string \<Rightarrow> node \<Rightarrow> bool" where
  "extendsMember object property n =
     (case n of
        ClassDeclaration ident superClass body \<Rightarrow>
          superClass = Some (MemberExpression (Identifier object) (Identifier property))
      | _ \<Rightarrow> False)"

definition extendsIdentifier :: "string \<Rightarrow> node \<Rightarrow> bool" where
  "extendsIdentifier name n =
     (case n of
        ClassDeclaration ident superClass body \<Rightarrow> superClass = Some (Identifier name)
      | _ \<Rightarrow> False)"

section \<open>Properties of the query facility and the shapes\<close>

lemma collection_find_filter: "collection_find shape paths = filter shape (tree_nodes paths)"
  by (induction paths) (simp_all add: collection_find_def tree_nodes_def)

lemma set_collection_find:
  "set (collection_find shape paths) = {n \<in> set (tree_nodes paths). shape n}"
  by (simp add: collection_find_filter)

lemma tree_nodes_single: "tree_nodes [t] = descendants t"
  by (simp add: tree_nodes_def)

lemma case_Identifier_eq:
  "(case x of Identifier name \<Rightarrow> name = s | _ \<Rightarrow> False) = (x = Identifier s)"
  by (cases x) auto

lemma isLiteral_iff: "isLiteral s = (\<exists>v. s = Literal v)"
  by (cases s) (simp_all add: isLiteral_def)

lemma literal_import_iff:
  "(literalImportShape d \<and> sourceValueIs m d) = (import_source d = Some m)"
proof (cases d)
  case (ImportDeclaration specifiers source)
  show ?thesis
  proof (cases source)
    case (Literal v)
    with ImportDeclaration show ?thesis
      by (cases v)
        (simp_all add: literalImportShape_def sourceValueIs_def import_source_def
          isImportDeclaration_def source_of_def isLiteral_def value_of_def)
  qed (simp_all add: ImportDeclaration literalImportShape_def import_source_def
          isImportDeclaration_def source_of_def isLiteral_def)
qed (simp_all add: literalImportShape_def import_source_def isImportDeclaration_def)

lemma count_literal_imports:
  "length (filter (\<lambda>d. literalImportShape d \<and> sourceValueIs m d) ds) =
   count_list (List.map_filter import_source ds) m"
proof (induction ds)
  case Nil
  show ?case by (simp add: map_filter_simps)
next
  case (Cons d ds)
  show ?case
  proof (cases "import_source d")
    case None
    then have "\<not> (literalImportShape d \<and> sourceValueIs m d)"
      by (simp add: literal_import_iff)
    with None Cons show ?thesis by (auto simp: map_filter_simps)
  next
    case (Some s)
    have "(literalImportShape d \<and> sourceValueIs m d) = (s = m)"
      using Some by (simp add: literal_import_iff)
    with Some Cons show ?thesis by (auto simp: map_filter_simps)
  qed
qed

lemma hasModule_count: "hasModule path m = (count_list (imported_modules path) m = 1)"
  by (simp add: hasModule_def findModule_def collection_find_filter imported_modules_def
        count_literal_imports)

lemma memberSelector_iff: "memberSelector n = extendsMember ''React'' ''Component'' n"
proof (cases n)
  case (ClassDeclaration ident superClass body)
  show ?thesis
  proof (cases superClass)
    case None
    with ClassDeclaration show ?thesis
      by (simp add: memberSelector_def extendsMember_def superClass_of_def)
  next
    case (Some e)
    with ClassDeclaration show ?thesis
      by (cases e)
        (simp_all add: memberSelector_def extendsMember_def superClass_of_def
          isClassDeclaration_def case_Identifier_eq)
  qed
qed (simp_all add: memberSelector_def extendsMember_def isClassDeclaration_def)

lemma identifierSelector_iff: "identifierSelector a n = extendsIdentifier a n"
proof (cases n)
  case (ClassDeclaration ident superClass body)
  show ?thesis
  proof (cases superClass)
    case None
    with ClassDeclaration show ?thesis
      by (simp add: identifierSelector_def extendsIdentifier_def superClass_of_def)
  next
    case (Some e)
    with ClassDeclaration show ?thesis
      by (cases e)
        (auto simp add: identifierSelector_def extendsIdentifier_def superClass_of_def
          isClassDeclaration_def)
  qed
qed (simp_all add: identifierSelector_def extendsIdentifier_def isClassDeclaration_def)

lemma byParent_fallback:
  "\<not> truthy (findReactComponentNameByParent path P) \<Longrightarrow>
   findReactES6ClassDeclarationByParent path P =
     collection_find (extendsMember ''React'' ''Component'') path"
  by (simp add: findReactES6ClassDeclarationByParent_def Let_def memberSelector_iff [abs_def])

lemma byParent_alias:
  "findReactComponentNameByParent path P = Some a \<Longrightarrow> a \<noteq> [] \<Longrightarrow>
   findReactES6ClassDeclarationByParent path P = collection_find (extendsIdentifier a) path"
  by (simp add: findReactES6ClassDeclarationByParent_def Let_def identifierSelector_iff [abs_def])


lemma hasReact_moduleNames: "hasReact path = (\<exists>m\<in>set moduleNames. hasModule path m)"
  by (simp add: hasReact_def moduleNames_def)

lemma hasModule_imported: "hasModule path m \<Longrightarrow> m \<in> set (imported_modules path)"
  by (metis hasModule_count count_list_0_iff zero_neq_one)

lemma unrelated_imports_no_react:
  "set (imported_modules path) \<inter> set moduleNames = {} \<Longrightarrow> \<not> hasReact path"
  using hasModule_imported by (auto simp: hasReact_moduleNames)

lemma set_subtrees: "set ns \<subseteq> set (subtrees ns)"
  by (induction ns) auto

lemma children_descendants: "set (children n) \<subseteq> set (descendants n)"
  by (simp add: descendants_children set_subtrees)

lemma class_members_descendants:
  "set ms \<subseteq> set (descendants (ClassDeclaration i s (ClassBody ms)))"
proof -
  have "set ms \<subseteq> set (descendants (ClassBody ms))"
    using children_descendants [of "ClassBody ms"] by simp
  then show ?thesis
    by (auto simp: descendants_children [of "ClassDeclaration i s (ClassBody ms)"])
qed

lemma isMethodDefinition_iff: "isMethodDefinition m = (\<exists>k v. m = MethodDefinition k v)"
  by (cases m) (simp_all add: isMethodDefinition_def)

lemma isRenderMethod_MethodDefinition:
  "isRenderMethod (MethodDefinition k v) = (k = Identifier ''render'')"
  by (simp add: isRenderMethod_def isMethodDefinition_def key_of_def case_Identifier_eq)

lemma keyNameIs_MethodDefinition:
  "keyNameIs h (MethodDefinition k v) = (k = Identifier h)"
  by (cases k) (auto simp add: keyNameIs_def key_of_def name_of_def)

lemma lifecycle_method_iff:
  "(isMethodDefinition m \<and> keyNameIs h m) = (\<exists>v. m = MethodDefinition (Identifier h) v)"
  by (auto simp: isMethodDefinition_iff keyNameIs_MethodDefinition)

lemma lifecycle_found:
  "(length (filter (keyNameIs h) (collection_find isMethodDefinition [c])) > 0) =
   (\<exists>m\<in>set (descendants c). \<exists>v. m = MethodDefinition (Identifier h) v)"
proof -
  have "(length (filter (keyNameIs h) (collection_find isMethodDefinition [c])) > 0) =
        (\<exists>m\<in>set (descendants c). isMethodDefinition m \<and> keyNameIs h m)"
    by (auto simp: collection_find_filter tree_nodes_single filter_empty_conv)
  then show ?thesis by (simp add: lifecycle_method_iff)
qed


lemma byParent_members:
  "n \<in> set (findReactES6ClassDeclarationByParent path P) \<Longrightarrow>
   n \<in> set (tree_nodes path) \<and> isClassDeclaration n"
  by (auto simp: findReactES6ClassDeclarationByParent_def Let_def collection_find_filter
        identifierSelector_def memberSelector_def split: if_splits)

lemma hasOnlyRenderMethod_all:
  "hasOnlyRenderMethod c =
     (\<forall>m\<in>set (descendants c). \<forall>k v. m = MethodDefinition k v \<longrightarrow> k = Identifier ''render'')"
proof -
  have "hasOnlyRenderMethod c =
        (\<forall>m\<in>set (descendants c). isMethodDefinition m \<longrightarrow> isRenderMethod m)"
    by (auto simp: hasOnlyRenderMethod_def collection_find_filter tree_nodes_single
          filter_empty_conv)
  also have "\<dots> = (\<forall>m\<in>set (descendants c). \<forall>k v. m = MethodDefinition k v \<longrightarrow> k = Identifier ''render'')"
    by (auto simp: isMethodDefinition_iff isRenderMethod_MethodDefinition)
  finally show ?thesis .
qed

lemma set_subtrees_eq: "set (subtrees ns) = (\<Union>c\<in>set ns. insert c (set (descendants c)))"
  by (induction ns) auto

lemma set_descendants:
  "set (descendants t) = (\<Union>c\<in>set (children t). insert c (set (descendants c)))"
  by (subst descendants_children) (simp add: set_subtrees_eq)

lemma descendants_trans:
  "d \<in> set (descendants t) \<Longrightarrow> x \<in> set (descendants d) \<Longrightarrow> x \<in> set (descendants t)"
proof (induction t rule: descendants.induct)
  case (1 n)
  from "1.prems"(1) obtain c where c: "c \<in> set (children n)" "d = c \<or> d \<in> set (descendants c)"
    by (auto simp: set_descendants [of n])
  from c(2) have "x \<in> set (descendants c)"
  proof
    assume "d = c"
    with "1.prems"(2) show ?thesis by simp
  next
    assume "d \<in> set (descendants c)"
    with "1.IH" c(1) "1.prems"(2) show ?thesis by blast
  qed
  with c(1) show ?case by (auto simp: set_descendants [of n])
qed

lemma in_tree_nodes: "x \<in> set (tree_nodes path) = (\<exists>p\<in>set path. x \<in> set (descendants p))"
  by (simp add: tree_nodes_def)

lemma tree_nodes_trans:
  assumes "d \<in> set (tree_nodes path)" and "x \<in> set (descendants d)"
  shows "x \<in> set (tree_nodes path)"
proof -
  from assms(1) obtain p where p: "p \<in> set path" "d \<in> set (descendants p)"
    by (auto simp: in_tree_nodes)
  from p(2) assms(2) have "x \<in> set (descendants p)"
    by (rule descendants_trans)
  with p(1) show ?thesis
    by (auto simp: in_tree_nodes)
qed

lemma in_collection_find:
  "s \<in> set (collection_find shape ps) = (shape s \<and> (\<exists>p\<in>set ps. s \<in> set (descendants p)))"
  by (auto simp: collection_find_filter in_tree_nodes)

lemma importSpecifierShape_iff:
  "importSpecifierShape P s = (\<exists>l. s = ImportSpecifier (Identifier P) l)"
proof (cases s)
  case (ImportSpecifier imported local)
  then show ?thesis
    by (cases imported) (auto simp: importSpecifierShape_def)
qed (simp_all add: importSpecifierShape_def)

lemma found_specifiers:
  assumes "s \<in> set (collection_find (importSpecifierShape P)
              (filter (\<lambda>_. b) (collection_find literalImportShape path)))"
  shows "s \<in> set (tree_nodes path) \<and> (\<exists>l. s = ImportSpecifier (Identifier P) l)"
proof -
  from assms obtain d where shape: "importSpecifierShape P s"
    and d: "d \<in> set (collection_find literalImportShape path)" "s \<in> set (descendants d)"
    by (auto simp: in_collection_find [of s])
  from d(1) have "d \<in> set (tree_nodes path)"
    by (simp add: collection_find_filter)
  then have "s \<in> set (tree_nodes path)"
    using d(2) by (rule tree_nodes_trans)
  with shape show ?thesis
    by (simp add: importSpecifierShape_iff)
qed

lemma resolver_none:
  assumes "\<forall>l. ImportSpecifier (Identifier P) l \<notin> set (tree_nodes path)"
  shows "findReactComponentNameByParent path P = None"
proof -
  let ?L = "collection_find (importSpecifierShape P)
              (filter (\<lambda>_. hasReact path) (collection_find literalImportShape path))"
  have "?L = []"
  proof (cases ?L)
    case (Cons x xs)
    then have "x \<in> set ?L" by simp
    then have "x \<in> set (tree_nodes path) \<and> (\<exists>l. x = ImportSpecifier (Identifier P) l)"
      by (rule found_specifiers)
    with assms show ?thesis by blast
  qed simp
  then show ?thesis
    by (simp add: findReactComponentNameByParent_def)
qed

lemma resolver_some:
  assumes react: "hasReact path"
    and decl: "ImportDeclaration specs (Literal v) \<in> set (tree_nodes path)"
    and spec: "ImportSpecifier (Identifier P) (Identifier foo) \<in> set specs"
    and only: "\<forall>l. ImportSpecifier (Identifier P) l \<in> set (tree_nodes path) \<longrightarrow> l = Identifier foo"
  shows "findReactComponentNameByParent path P = Some foo"
proof -
  let ?D = "ImportDeclaration specs (Literal v)"
  let ?S = "ImportSpecifier (Identifier P) (Identifier foo)"
  let ?ds = "filter (\<lambda>_. hasReact path) (collection_find literalImportShape path)"
  let ?L = "collection_find (importSpecifierShape P) ?ds"
  have "literalImportShape ?D"
    by (simp add: literalImportShape_def isImportDeclaration_def source_of_def isLiteral_def)
  with decl react have D: "?D \<in> set ?ds"
    by (simp add: collection_find_filter)
  have S: "?S \<in> set (descendants ?D)"
    using spec children_descendants [of ?D] by auto
  have "importSpecifierShape P ?S"
    by (simp add: importSpecifierShape_iff)
  with D S have "?S \<in> set ?L"
    unfolding in_collection_find [of ?S] by blast
  then obtain x xs where L: "?L = x # xs"
    by (cases ?L) auto
  then have "x \<in> set ?L" by simp
  then have "x \<in> set (tree_nodes path) \<and> (\<exists>l. x = ImportSpecifier (Identifier P) l)"
    by (rule found_specifiers)
  with only have "x = ?S" by blast
  then have "localName x = Some foo"
    by (simp add: localName_def local_of_def name_of_def)
  with L show ?thesis
    by (simp add: findReactComponentNameByParent_def)
qed

section \<open>Example programs\<close>

text \<open>
  Small programs used to run the utilities. \<^verbatim>\<open>ex_withState\<close> is the fixture
  \<^verbatim>\<open>withState/index.input.js\<close> and \<^verbatim>\<open>ex_pure\<close> the second fixture (a class that
  extends the named import \<^verbatim>\<open>PureComponent\<close>), both with the method bodies emptied;
  the others are one or two imports followed by one class.
\<close>

definition methodNamed :: "string \<Rightarrow> node" where
  "methodNamed name = MethodDefinition (Identifier name) (FunctionExpression [] (BlockStatement []))"

definition importFrom :: "node list \<Rightarrow> string \<Rightarrow> node" where
  "importFrom specifiers module = ImportDeclaration specifiers (Literal (StringValue module))"

definition reactDefault :: node where
  "reactDefault = ImportDefaultSpecifier (Identifier ''React'')"

definition named :: "string \<Rightarrow> string \<Rightarrow> node" where
  "named imported local = ImportSpecifier (Identifier imported) (Identifier local)"

definition member :: "string \<Rightarrow> string \<Rightarrow> node" where
  "member object property = MemberExpression (Identifier object) (Identifier property)"

definition classDecl :: "string \<Rightarrow> node \<Rightarrow> node list \<Rightarrow> node" where
  "classDecl name superClass members =
     ClassDeclaration (Some (Identifier name)) (Some superClass) (ClassBody members)"

text \<open>Unfolding rules for the examples.\<close>

lemmas example_defs = methodNamed_def importFrom_def reactDefault_def named_def member_def classDecl_def

definition ex_withState :: node where
  "ex_withState = Program
     [importFrom [reactDefault, named ''Component'' ''Component''] ''react'',
      classDecl ''ClassWithState'' (Identifier ''Component'') [methodNamed ''constructor'', methodNamed ''render''],
      ExportDefaultDeclaration (Identifier ''ClassWithState'')]"

definition ex_pure :: node where
  "ex_pure = Program
     [importFrom [reactDefault, named ''PureComponent'' ''PureComponent''] ''react'',
      classDecl ''OurComponent'' (Identifier ''PureComponent'')
        [methodNamed ''componentDidMount'', methodNamed ''render''],
      ExportDefaultDeclaration (Identifier ''OurComponent'')]"

definition ex_greeter :: node where
  "ex_greeter = Program
     [importFrom [reactDefault] ''react'',
      classDecl ''Greeter'' (member ''React'' ''PureComponent'') [methodNamed ''render'']]"

definition ex_qualified :: node where
  "ex_qualified = Program
     [importFrom [reactDefault] ''react'',
      classDecl ''A'' (member ''React'' ''Component'') [methodNamed ''render'']]"

definition ex_alias :: node where
  "ex_alias = Program
     [importFrom [named ''Component'' ''Foo''] ''react'',
      classDecl ''B'' (Identifier ''Foo'') [methodNamed ''render'']]"

definition ex_alias_twice :: node where
  "ex_alias_twice = Program
     [importFrom [reactDefault] ''react'',
      importFrom [named ''Component'' ''Foo''] ''react'',
      classDecl ''B'' (Identifier ''Foo'') [methodNamed ''render'']]"

definition ex_foreign :: node where
  "ex_foreign = Program
     [importFrom [reactDefault] ''react'',
      importFrom [named ''Component'' ''Foo''] ''some-lib'']"

definition ex_no_import :: node where
  "ex_no_import = Program [classDecl ''X'' (member ''React'' ''Component'') [methodNamed ''render'']]"

definition ex_unrelated :: node where
  "ex_unrelated = Program
     [importFrom [reactDefault] ''react-dom'',
      classDecl ''X'' (member ''React'' ''Component'') [methodNamed ''render'']]"

definition ex_anonymous :: node where
  "ex_anonymous = Program
     [importFrom [reactDefault] ''react'',
      ExportDefaultDeclaration
        (ClassDeclaration None (Some (member ''React'' ''Component''))
           (ClassBody [methodNamed ''render'']))]"

definition ex_both_named :: node where
  "ex_both_named = Program
     [importFrom [reactDefault, named ''Component'' ''Component'',
        named ''PureComponent'' ''PureComponent''] ''react'',
      classDecl ''A'' (member ''React'' ''Component'') [methodNamed ''render'']]"

text \<open>The example programs, unfolded by name.\<close>

lemmas tree_defs = ex_withState_def ex_pure_def ex_greeter_def ex_qualified_def ex_alias_def
  ex_alias_twice_def ex_foreign_def ex_no_import_def ex_unrelated_def ex_anonymous_def
  ex_both_named_def

text \<open>Every definition a concrete run unfolds.\<close>

lemmas query_defs = descendants_children collection_find_def name_of_def value_of_def
  source_of_def key_of_def local_of_def id_of_def superClass_of_def isImportDeclaration_def
  isImportSpecifier_def isClassDeclaration_def isMethodDefinition_def isJSXElement_def
  isLiteral_def literalImportShape_def sourceValueIs_def findModule_def hasModule_def
  hasReact_def isRenderMethod_def hasOnlyRenderMethod_def importSpecifierShape_def
  localName_def findReactComponentNameByParent_def identifierSelector_def memberSelector_def
  findReactES6ClassDeclarationByParent_def findReactES6ClassDeclaration_def keyNameIs_def
  findComponentDidCatchMethod_def hasComponentDidCatchMethod_def
  findGetDerivedStateFromErrorMethod_def hasGetDerivedStateFromErrorMethod_def
  getClassName_def tree_nodes_def import_source_def imported_modules_def moduleNames_def
  extendsMember_def extendsIdentifier_def map_filter_simps

section \<open>Import resolution\<close>

text \<open>
  C7. \<^verbatim>\<open>hasModule\<close> is true iff exactly one import declaration below the roots has a
  literal string source equal to the module name. A module that is imported twice, or
  not at all, gives \<^const>\<open>False\<close>; nothing is thrown.
\<close>

theorem hasModule_exactly_one:
  "hasModule path m = (count_list (imported_modules path) m = 1) \<and>
   (m \<notin> set (imported_modules path) \<longrightarrow> \<not> hasModule path m) \<and>
   (2 \<le> count_list (imported_modules path) m \<longrightarrow> \<not> hasModule path m)"
  by (simp add: hasModule_count count_list_0_iff [symmetric] del: count_list_0_iff)

text \<open>
  C7 at three programs: one import of \<^verbatim>\<open>react\<close>, two imports of \<^verbatim>\<open>react\<close>, no import.
\<close>

theorem hasModule_exactly_one_witness:
  "hasModule [ex_qualified] ''react'' \<and>
   imported_modules [ex_alias_twice] = [''react'', ''react''] \<and>
   \<not> hasModule [ex_alias_twice] ''react'' \<and>
   imported_modules [ex_no_import] = [] \<and>
   \<not> hasModule [ex_no_import] ''react''"
  using hasModule_exactly_one [of "[ex_qualified]" "''react''"]
    hasModule_exactly_one [of "[ex_alias_twice]" "''react''"]
    hasModule_exactly_one [of "[ex_no_import]" "''react''"]
  by (simp add: tree_defs example_defs descendants_children tree_nodes_def import_source_def
        imported_modules_def map_filter_simps)

text \<open>
  C8. \<^verbatim>\<open>hasReact\<close> is the disjunction of \<^verbatim>\<open>hasModule\<close> over the three spellings
  \<^verbatim>\<open>React\<close>, \<^verbatim>\<open>react\<close>, \<^verbatim>\<open>react-native\<close>, compared by string equality: a program
  none of whose import sources is one of the three gives \<^const>\<open>False\<close>.
\<close>

theorem hasReact_closed_set:
  "hasReact path = (\<exists>m\<in>set moduleNames. hasModule path m) \<and>
   (set (imported_modules path) \<inter> set moduleNames = {} \<longrightarrow> \<not> hasReact path)"
  using unrelated_imports_no_react hasReact_moduleNames by blast

text \<open>
  C8 at a program that imports \<^verbatim>\<open>react-dom\<close> only, and at one that imports \<^verbatim>\<open>react\<close>.
\<close>

theorem hasReact_closed_set_witness:
  "imported_modules [ex_unrelated] = [''react-dom''] \<and> \<not> hasReact [ex_unrelated] \<and>
   hasReact [ex_qualified]"
  using hasReact_closed_set [of "[ex_unrelated]"] hasReact_closed_set [of "[ex_qualified]"]
  by (simp add: tree_defs example_defs descendants_children tree_nodes_def import_source_def
        imported_modules_def map_filter_simps moduleNames_def hasModule_count)

text \<open>
  C3 says that \<^verbatim>\<open>findReactComponentNameByParent\<close> returns a local name only for a
  specifier inside an import declaration whose own source is a framework spelling. The
  source keeps every import declaration once \<^verbatim>\<open>hasReact\<close> holds for the file
  (\<^verbatim>\<open>.filter(() => hasReact(path))\<close> does not look at the declaration), so for
  \<^verbatim>\<open>import React from "react"; import { Component as Foo } from "some-lib"\<close> it returns
  \<^verbatim>\<open>Foo\<close>, although the import of \<^verbatim>\<open>react\<close> holds no specifier for \<^verbatim>\<open>Component\<close>.
\<close>

theorem alias_from_unrelated_module:
  "imported_modules [ex_foreign] = [''react'', ''some-lib''] \<and>
   collection_find (importSpecifierShape ''Component'')
     [importFrom [reactDefault] ''react''] = [] \<and>
   findReactComponentNameByParent [ex_foreign] ''Component'' = Some ''Foo''"
  by (simp add: tree_defs example_defs query_defs)

section \<open>The base-class locator\<close>

text \<open>
  C6. \<^verbatim>\<open>findReactES6ClassDeclaration\<close> searches with the parent name \<^verbatim>\<open>Component\<close>;
  exactly when that search finds nothing it searches with \<^verbatim>\<open>PureComponent\<close>, and it
  returns the collection it found, which may be empty. It is a total function with no
  error result, and everything it returns is a class declaration below the roots.
\<close>

theorem locator_two_tiers:
  "findReactES6ClassDeclaration path =
     (if findReactES6ClassDeclarationByParent path ''Component'' = []
      then findReactES6ClassDeclarationByParent path ''PureComponent''
      else findReactES6ClassDeclarationByParent path ''Component'') \<and>
   list_all isClassDeclaration (findReactES6ClassDeclaration path) \<and>
   set (findReactES6ClassDeclaration path) \<subseteq> set (tree_nodes path)"
proof -
  have eq: "findReactES6ClassDeclaration path =
     (if findReactES6ClassDeclarationByParent path ''Component'' = []
      then findReactES6ClassDeclarationByParent path ''PureComponent''
      else findReactES6ClassDeclarationByParent path ''Component'')"
    by (simp add: findReactES6ClassDeclaration_def Let_def)
  have "\<forall>n\<in>set (findReactES6ClassDeclaration path).
          n \<in> set (tree_nodes path) \<and> isClassDeclaration n"
    unfolding eq using byParent_members by (simp split: if_splits)
  with eq show ?thesis by (auto simp: list_all_iff)
qed

text \<open>
  C6 at the two fixtures and at the empty program: the first search succeeds for
  \<^verbatim>\<open>ex_withState\<close>, the second one is needed for \<^verbatim>\<open>ex_pure\<close>, and the empty program
  gives the empty collection.
\<close>

theorem locator_two_tiers_witness:
  "findReactES6ClassDeclarationByParent [ex_withState] ''Component'' \<noteq> [] \<and>
   findReactES6ClassDeclaration [ex_withState] =
     findReactES6ClassDeclarationByParent [ex_withState] ''Component'' \<and>
   findReactES6ClassDeclarationByParent [ex_pure] ''Component'' = [] \<and>
   findReactES6ClassDeclaration [ex_pure] =
     [classDecl ''OurComponent'' (Identifier ''PureComponent'')
        [methodNamed ''componentDidMount'', methodNamed ''render'']] \<and>
   findReactES6ClassDeclaration [Program []] = []"
  using locator_two_tiers [of "[ex_withState]"] locator_two_tiers [of "[ex_pure]"]
    locator_two_tiers [of "[Program []]"]
  by (simp add: tree_defs example_defs query_defs)

text \<open>
  C1 says that without an alias the search is for the member expression \<^verbatim>\<open>React.P\<close>,
  \<^verbatim>\<open>P\<close> the requested parent name. The source writes the property as the constant
  \<^verbatim>\<open>"Component"\<close>: for \<^verbatim>\<open>import React from "react"; class Greeter extends
  React.PureComponent\<close> and the parent name \<^verbatim>\<open>PureComponent\<close> no alias is found, the
  class extends \<^verbatim>\<open>React.PureComponent\<close>, and the search returns nothing; for a class
  that extends \<^verbatim>\<open>React.Component\<close> the same search returns the class.
\<close>

theorem qualified_fallback_ignores_parent_name:
  "findReactComponentNameByParent [ex_greeter] ''PureComponent'' = None \<and>
   collection_find (extendsMember ''React'' ''PureComponent'') [ex_greeter] =
     [classDecl ''Greeter'' (member ''React'' ''PureComponent'') [methodNamed ''render'']] \<and>
   findReactES6ClassDeclarationByParent [ex_greeter] ''PureComponent'' = [] \<and>
   findReactES6ClassDeclarationByParent [ex_qualified] ''PureComponent'' =
     [classDecl ''A'' (member ''React'' ''Component'') [methodNamed ''render'']]"
  by (simp add: tree_defs example_defs query_defs)




text \<open>
  C2, as the specification states it, fails in two ways. The class of
  \<^verbatim>\<open>import React from "react"; class A extends React.Component\<close> is located, and the
  class of \<^verbatim>\<open>import React from "react"; import { Component as Foo } from "react";
  class B extends Foo\<close> is not: two declarations import \<^verbatim>\<open>react\<close> and \<^verbatim>\<open>hasModule\<close>
  asks for exactly one. The class of \<^verbatim>\<open>import { Component as Foo } from "react";
  class B extends Foo\<close> is located, and the class of \<^verbatim>\<open>import React, { Component,
  PureComponent } from "react"; class A extends React.Component\<close> is not: once a name
  is imported, only classes that extend the imported name are searched.
\<close>

theorem alias_transparency_counterexample:
  "classDecl ''A'' (member ''React'' ''Component'') [methodNamed ''render'']
     \<in> set (findReactES6ClassDeclaration [ex_qualified]) \<and>
   importFrom [named ''Component'' ''Foo''] ''react'' \<in> set (descendants ex_alias_twice) \<and>
   classDecl ''B'' (Identifier ''Foo'') [methodNamed ''render'']
     \<in> set (descendants ex_alias_twice) \<and>
   findReactES6ClassDeclaration [ex_alias_twice] = [] \<and>
   classDecl ''A'' (member ''React'' ''Component'') [methodNamed ''render'']
     \<in> set (descendants ex_both_named) \<and>
   findReactES6ClassDeclaration [ex_both_named] = [] \<and>
   classDecl ''B'' (Identifier ''Foo'') [methodNamed ''render'']
     \<in> set (findReactES6ClassDeclaration [ex_alias])"
  by (simp add: tree_defs example_defs query_defs)

text \<open>
  C2, amended. The conditions are on the two trees. The first tree holds no named-import
  specifier for \<^verbatim>\<open>Component\<close> and holds a class declaration that extends
  \<^verbatim>\<open>React.Component\<close>. The second tree holds an import declaration whose source is an
  accepted spelling \<^verbatim>\<open>m\<close> that exactly one import declaration of the tree names, with
  the specifier \<^verbatim>\<open>{ Component as foo }\<close>, \<^verbatim>\<open>foo\<close> not empty; no named-import specifier
  for \<^verbatim>\<open>Component\<close> in that tree binds another local; and the tree holds a class
  declaration that extends the identifier \<^verbatim>\<open>foo\<close>. Then
  \<^verbatim>\<open>findReactES6ClassDeclaration\<close> locates both classes.
\<close>

theorem alias_transparency:
  assumes noneA: "\<forall>l. ImportSpecifier (Identifier ''Component'') l \<notin> set (descendants treeA)"
    and classA: "classA \<in> set (descendants treeA)"
    and extA: "extendsMember ''React'' ''Component'' classA"
    and spelling: "m \<in> set moduleNames"
    and once: "count_list (imported_modules [treeB]) m = 1"
    and decl: "ImportDeclaration specs (Literal (StringValue m)) \<in> set (descendants treeB)"
    and spec: "ImportSpecifier (Identifier ''Component'') (Identifier foo) \<in> set specs"
    and only: "\<forall>l. ImportSpecifier (Identifier ''Component'') l \<in> set (descendants treeB)
                 \<longrightarrow> l = Identifier foo"
    and foo: "foo \<noteq> []"
    and classB: "classB \<in> set (descendants treeB)"
    and extB: "extendsIdentifier foo classB"
  shows "classA \<in> set (findReactES6ClassDeclaration [treeA]) \<and>
         classB \<in> set (findReactES6ClassDeclaration [treeB])"
proof
  have "findReactComponentNameByParent [treeA] ''Component'' = None"
    using noneA by (intro resolver_none) (simp add: tree_nodes_single)
  then have "findReactES6ClassDeclarationByParent [treeA] ''Component'' =
      collection_find (extendsMember ''React'' ''Component'') [treeA]"
    by (simp add: byParent_fallback)
  then have a: "classA \<in> set (findReactES6ClassDeclarationByParent [treeA] ''Component'')"
    using classA extA by (simp add: collection_find_filter tree_nodes_single)
  then have "findReactES6ClassDeclarationByParent [treeA] ''Component'' \<noteq> []"
    by auto
  with a show "classA \<in> set (findReactES6ClassDeclaration [treeA])"
    by (simp add: findReactES6ClassDeclaration_def)
next
  have "hasModule [treeB] m"
    using once by (simp add: hasModule_count)
  with spelling have react: "hasReact [treeB]"
    by (auto simp: hasReact_moduleNames)
  have "findReactComponentNameByParent [treeB] ''Component'' = Some foo"
    using react decl spec only
    by (intro resolver_some [where specs = specs and v = "StringValue m"])
       (simp_all add: tree_nodes_single)
  then have "findReactES6ClassDeclarationByParent [treeB] ''Component'' =
      collection_find (extendsIdentifier foo) [treeB]"
    using foo by (rule byParent_alias)
  then have b: "classB \<in> set (findReactES6ClassDeclarationByParent [treeB] ''Component'')"
    using classB extB by (simp add: collection_find_filter tree_nodes_single)
  then have "findReactES6ClassDeclarationByParent [treeB] ''Component'' \<noteq> []"
    by auto
  with b show "classB \<in> set (findReactES6ClassDeclaration [treeB])"
    by (simp add: findReactES6ClassDeclaration_def)
qed

text \<open>
  C2 amended, at \<^verbatim>\<open>import React from "react"; class A extends React.Component\<close> and
  \<^verbatim>\<open>import { Component as Foo } from "react"; class B extends Foo\<close>.
\<close>

theorem alias_transparency_witness:
  "count_list (imported_modules [ex_alias]) ''react'' = 1 \<and>
   importFrom [named ''Component'' ''Foo''] ''react'' \<in> set (descendants ex_alias) \<and>
   classDecl ''A'' (member ''React'' ''Component'') [methodNamed ''render'']
     \<in> set (findReactES6ClassDeclaration [ex_qualified]) \<and>
   classDecl ''B'' (Identifier ''Foo'') [methodNamed ''render'']
     \<in> set (findReactES6ClassDeclaration [ex_alias])"
proof -
  let ?A = "classDecl ''A'' (member ''React'' ''Component'') [methodNamed ''render'']"
  let ?B = "classDecl ''B'' (Identifier ''Foo'') [methodNamed ''render'']"
  have 1: "\<forall>l. ImportSpecifier (Identifier ''Component'') l \<notin> set (descendants ex_qualified)"
    by (simp add: tree_defs example_defs descendants_children)
  have 2: "?A \<in> set (descendants ex_qualified)"
    by (simp add: tree_defs example_defs descendants_children)
  have 3: "extendsMember ''React'' ''Component'' ?A"
    by (simp add: example_defs extendsMember_def)
  have 4: "''react'' \<in> set moduleNames"
    by (simp add: moduleNames_def)
  have 5: "count_list (imported_modules [ex_alias]) ''react'' = 1"
    by (simp add: tree_defs example_defs descendants_children tree_nodes_def import_source_def
        imported_modules_def map_filter_simps)
  have 6: "ImportDeclaration [named ''Component'' ''Foo''] (Literal (StringValue ''react''))
             \<in> set (descendants ex_alias)"
    by (simp add: tree_defs example_defs descendants_children)
  have 7: "ImportSpecifier (Identifier ''Component'') (Identifier ''Foo'')
             \<in> set [named ''Component'' ''Foo'']"
    by (simp add: example_defs)
  have 8: "\<forall>l. ImportSpecifier (Identifier ''Component'') l \<in> set (descendants ex_alias)
             \<longrightarrow> l = Identifier ''Foo''"
    by (simp add: tree_defs example_defs descendants_children)
  have 9: "''Foo'' \<noteq> []"
    by simp
  have 10: "?B \<in> set (descendants ex_alias)"
    by (simp add: tree_defs example_defs descendants_children)
  have 11: "extendsIdentifier ''Foo'' ?B"
    by (simp add: example_defs extendsIdentifier_def)
  from alias_transparency [OF 1 2 3 4 5 6 7 8 9 10 11] 5 6 show ?thesis
    by (simp add: importFrom_def)
qed

section \<open>Predicates on a class\<close>

text \<open>
  C9. For a node \<^verbatim>\<open>c\<close> (a class), \<^verbatim>\<open>hasComponentDidCatchMethod\<close> and
  \<^verbatim>\<open>hasGetDerivedStateFromErrorMethod\<close> on the collection of \<^verbatim>\<open>c\<close> alone are true iff
  a method definition below \<^verbatim>\<open>c\<close> has the identifier \<^verbatim>\<open>componentDidCatch\<close>
  (\<^verbatim>\<open>getDerivedStateFromError\<close>) as its key. A method that is not below \<^verbatim>\<open>c\<close>, or whose
  key is not that identifier, does not count.
\<close>

theorem lifecycle_predicates:
  "hasComponentDidCatchMethod [c] =
     (\<exists>m\<in>set (descendants c). \<exists>v. m = MethodDefinition (Identifier ''componentDidCatch'') v) \<and>
   hasGetDerivedStateFromErrorMethod [c] =
     (\<exists>m\<in>set (descendants c). \<exists>v. m = MethodDefinition (Identifier ''getDerivedStateFromError'') v)"
  unfolding hasComponentDidCatchMethod_def findComponentDidCatchMethod_def
    hasGetDerivedStateFromErrorMethod_def findGetDerivedStateFromErrorMethod_def
  by (simp only: lifecycle_found)

text \<open>
  C4, as the specification states it, fails: a class with no method at all satisfies
  \<^verbatim>\<open>hasOnlyRenderMethod\<close>.
\<close>

theorem hasOnlyRenderMethod_empty_class:
  "hasOnlyRenderMethod
     (ClassDeclaration (Some (Identifier ''Empty''))
        (Some (MemberExpression (Identifier ''React'') (Identifier ''Component'')))
        (ClassBody []))"
  by (simp add: query_defs)

text \<open>
  C4, amended. \<^verbatim>\<open>hasOnlyRenderMethod\<close> is true iff every method definition below the
  class has the identifier \<^verbatim>\<open>render\<close> as its key, that is, iff the class has no method
  other than \<^verbatim>\<open>render\<close>. So it is true for a class without methods, and false for a
  class whose body holds any method definition with another key (a constructor, a
  lifecycle hook, a custom method), with or without \<^verbatim>\<open>render\<close> beside it.
\<close>

theorem hasOnlyRenderMethod_no_other_method:
  "hasOnlyRenderMethod c =
     (\<forall>m\<in>set (descendants c). \<forall>k v. m = MethodDefinition k v \<longrightarrow> k = Identifier ''render'') \<and>
   ((\<forall>m\<in>set (descendants c). \<not> isMethodDefinition m) \<longrightarrow> hasOnlyRenderMethod c) \<and>
   (\<forall>k v. MethodDefinition k v \<in> set ms \<and> k \<noteq> Identifier ''render'' \<longrightarrow>
      \<not> hasOnlyRenderMethod (ClassDeclaration i s (ClassBody ms)))"
proof (intro conjI allI impI)
  show "hasOnlyRenderMethod c =
     (\<forall>m\<in>set (descendants c). \<forall>k v. m = MethodDefinition k v \<longrightarrow> k = Identifier ''render'')"
    by (rule hasOnlyRenderMethod_all)
next
  assume "\<forall>m\<in>set (descendants c). \<not> isMethodDefinition m"
  then show "hasOnlyRenderMethod c"
    by (auto simp: hasOnlyRenderMethod_all isMethodDefinition_iff)
next
  fix k v
  assume a: "MethodDefinition k v \<in> set ms \<and> k \<noteq> Identifier ''render''"
  then have "MethodDefinition k v \<in> set (descendants (ClassDeclaration i s (ClassBody ms)))"
    using class_members_descendants by blast
  with a show "\<not> hasOnlyRenderMethod (ClassDeclaration i s (ClassBody ms))"
    by (auto simp: hasOnlyRenderMethod_all)
qed

text \<open>
  C4 amended, at a class with no method, a class with \<^verbatim>\<open>render\<close> only, and the class of
  the fixture (a constructor and \<^verbatim>\<open>render\<close>).
\<close>

theorem hasOnlyRenderMethod_no_other_method_witness:
  "hasOnlyRenderMethod (classDecl ''Empty'' (member ''React'' ''Component'') []) \<and>
   hasOnlyRenderMethod (classDecl ''Greeter'' (member ''React'' ''PureComponent'') [methodNamed ''render'']) \<and>
   \<not> hasOnlyRenderMethod
       (classDecl ''ClassWithState'' (Identifier ''Component'')
          [methodNamed ''constructor'', methodNamed ''render''])"
proof -
  let ?empty = "classDecl ''Empty'' (member ''React'' ''Component'') []"
  let ?greeter = "classDecl ''Greeter'' (member ''React'' ''PureComponent'') [methodNamed ''render'']"
  let ?ms = "[methodNamed ''constructor'', methodNamed ''render'']"
  have "hasOnlyRenderMethod ?empty"
    using hasOnlyRenderMethod_no_other_method [of ?empty "[]"]
    by (simp add: example_defs descendants_children isMethodDefinition_def)
  moreover have "hasOnlyRenderMethod ?greeter"
    using hasOnlyRenderMethod_no_other_method [of ?greeter "[]"]
    by (simp add: example_defs descendants_children)
  moreover have "\<not> hasOnlyRenderMethod
      (ClassDeclaration (Some (Identifier ''ClassWithState'')) (Some (Identifier ''Component''))
         (ClassBody ?ms))"
  proof -
    have "MethodDefinition (Identifier ''constructor'') (FunctionExpression [] (BlockStatement []))
            \<in> set ?ms \<and> Identifier ''constructor'' \<noteq> Identifier ''render''"
      by (simp add: example_defs)
    with hasOnlyRenderMethod_no_other_method [of ?empty ?ms
        "Some (Identifier ''ClassWithState'')" "Some (Identifier ''Component'')"]
    show ?thesis by blast
  qed
  ultimately show ?thesis by (simp add: classDecl_def)
qed

text \<open>
  C10 says that \<^verbatim>\<open>getClassName\<close> is total and signals an anonymous class by an
  absent result. The source reads \<^verbatim>\<open>path.node.id.name\<close> with no test of \<^verbatim>\<open>id\<close>: for
  \<^verbatim>\<open>export default class extends React.Component { render() {} }\<close>, a class the locator
  returns, the read throws a \<^verbatim>\<open>TypeError\<close>. For a named class it returns the name.
\<close>

theorem getClassName_anonymous_class:
  "findReactES6ClassDeclaration [ex_anonymous] =
     [ClassDeclaration None (Some (member ''React'' ''Component''))
        (ClassBody [methodNamed ''render''])] \<and>
   map getClassName (findReactES6ClassDeclaration [ex_anonymous]) = [Inl TypeError] \<and>
   getClassName (ClassDeclaration None superClass body) = Inl TypeError \<and>
   getClassName (ClassDeclaration (Some (Identifier name)) superClass body) = Inr (Some name)"
  by (simp add: tree_defs example_defs query_defs)

end
